theory Spec2Isabelle
  imports Main "HOL-Library.Word"
begin

section \<open>Strings\<close>

text \<open>
  A JavaScript string is a sequence of UTF-16 code units. The component's two notices
  start with a warning sign (U+26A0, U+FE0F), and \<^verbatim>\<open>String.prototype.trim\<close> removes
  Unicode white space, so strings are modelled at the level of code units rather than
  bytes. \<open>ascii\<close> embeds an ASCII literal.
\<close>

type_synonym jsstring = "16 word list"

definition ascii :: "string \<Rightarrow> jsstring" where
  "ascii s = map (\<lambda>c. word_of_nat (of_char c)) s"

text \<open>
  ECMAScript \<^verbatim>\<open>WhiteSpace\<close> (TAB, VT, FF, ZWNBSP and the code points of category Zs) and
  \<^verbatim>\<open>LineTerminator\<close> (LF, CR, LS, PS): what \<^verbatim>\<open>trim\<close> strips from both ends.
\<close>

definition is_ws :: "16 word \<Rightarrow> bool" where
  "is_ws c \<longleftrightarrow>
     c = 0x0009 \<or> c = 0x000A \<or> c = 0x000B \<or> c = 0x000C \<or> c = 0x000D \<or> c = 0x0020 \<or>
     c = 0x00A0 \<or> c = 0x1680 \<or> (0x2000 \<le> c \<and> c \<le> 0x200A) \<or> c = 0x2028 \<or>
     c = 0x2029 \<or> c = 0x202F \<or> c = 0x205F \<or> c = 0x3000 \<or> c = 0xFEFF"

definition trim :: "jsstring \<Rightarrow> jsstring" where
  "trim s = rev (dropWhile is_ws (rev (dropWhile is_ws s)))"

text \<open>
  \<^verbatim>\<open>FormData.append\<close> takes its text arguments as \<^verbatim>\<open>USVString\<close>: a surrogate that is
  not part of a pair (a high one followed by a low one) is replaced by U+FFFD.
\<close>

definition is_high_surrogate :: "16 word \<Rightarrow> bool" where
  "is_high_surrogate c \<longleftrightarrow> 0xD800 \<le> c \<and> c \<le> 0xDBFF"

definition is_low_surrogate :: "16 word \<Rightarrow> bool" where
  "is_low_surrogate c \<longleftrightarrow> 0xDC00 \<le> c \<and> c \<le> 0xDFFF"

fun to_usv :: "jsstring \<Rightarrow> jsstring" where
  "to_usv [] = []"
| "to_usv [c] = (if is_high_surrogate c \<or> is_low_surrogate c then [0xFFFD] else [c])"
| "to_usv (c # d # cs) =
     (if is_high_surrogate c \<and> is_low_surrogate d then c # d # to_usv cs
      else if is_high_surrogate c \<or> is_low_surrogate c then 0xFFFD # to_usv (d # cs)
      else c # to_usv (d # cs))"

section \<open>Data model\<close>

text \<open>
  \<^verbatim>\<open>type ChatMessageType = { sender: "user" | "bot"; text: string; pdf?: string }\<close>;
  the field \<^verbatim>\<open>text\<close> is \<open>msg_text\<close> here.
\<close>

datatype sender = User | Bot

record ChatMessageType =
  sender :: sender
  msg_text :: jsstring
  pdf :: "jsstring option"

text \<open>Of a browser \<^verbatim>\<open>File\<close> the component reads \<^verbatim>\<open>name\<close> and \<^verbatim>\<open>type\<close>.\<close>

record File =
  name :: jsstring
  type :: jsstring

text \<open>The hidden \<^verbatim>\<open><input type="file">\<close> behind \<^verbatim>\<open>fileInputRef\<close>: its \<^verbatim>\<open>value\<close>.\<close>

record HTMLInputElement =
  input_value :: jsstring

text \<open>
  The component's state: the four \<^verbatim>\<open>useState\<close> cells and \<^verbatim>\<open>fileInputRef.current\<close>
  (\<open>None\<close> while the ref is \<^verbatim>\<open>null\<close>).
\<close>

record state =
  messages :: "ChatMessageType list"
  loading :: bool
  inputText :: jsstring
  pdfFile :: "File option"
  fileInputRef :: "HTMLInputElement option"

section \<open>The network\<close>

datatype form_value = FormText jsstring | FormFile File

record request =
  url :: jsstring
  http_method :: jsstring
  body :: "(jsstring \<times> form_value) list"

text \<open>
  How the call settles. \<^verbatim>\<open>fetch\<close> rejects, or resolves to a response of which the code
  reads \<^verbatim>\<open>ok\<close>, \<^verbatim>\<open>status\<close> and \<^verbatim>\<open>json()\<close>; the latter rejects (the body is not
  JSON, or the stream fails) or resolves to the parsed body. The code declares the body
  as \<^verbatim>\<open>const data: { response?: string }\<close>, an object in which \<^verbatim>\<open>response\<close> is absent
  (\<open>None\<close>) or a string; nothing checks the declaration when the program runs, and the
  server may as well answer with the JSON text \<^verbatim>\<open>null\<close>, which \<^verbatim>\<open>json()\<close> resolves to
  \<^verbatim>\<open>null\<close> (\<open>BodyNull\<close>).
\<close>

record response_data =
  response :: "jsstring option"

datatype body_result = BodyRejects | BodyNull | BodyJson response_data

record Response =
  ok :: bool
  status :: nat
  json :: body_result

datatype fetch_result = FetchRejects | FetchResolves Response

text \<open>
  The exceptions: the three the \<^verbatim>\<open>try\<close> block can raise, and the TypeError of reading a
  property of \<^verbatim>\<open>null\<close>.
\<close>

datatype js_error =
    NetworkError
  | ServerError nat
  | JsonError
  | TypeError

section \<open>Effects\<close>

text \<open>
  Every handler is a sequence of effects on the component: calls of the state setters, the
  assignment to the file input, \<^verbatim>\<open>fetch\<close> and the console. A handler is modelled by the
  list of the effects it performs, in order; \<open>run\<close> applies them to a state.
  \<open>AppendMessage m\<close> is \<^verbatim>\<open>setMessages((prev) => [...prev, m])\<close>, the only use of
  \<^verbatim>\<open>setMessages\<close>.

  The argument of \<^verbatim>\<open>setMessages\<close> is a function, and the message is built in its body:
  React runs it when it renders the component, not inside the call of the setter. When
  building the message throws, the call of the setter has returned long before, so the
  handler's \<^verbatim>\<open>try\<close> block sees no exception; nothing is appended, and the exception
  leaves React's render instead (the component has no error boundary).
  \<open>AppendThrows e\<close> is such a call.
\<close>

datatype effect =
    AppendMessage ChatMessageType
  | AppendThrows js_error
  | SetLoading bool
  | SetInputText jsstring
  | SetPdfFile "File option"
  | SetFileInputValue jsstring
  | Fetch request
  | ConsoleLog response_data
  | ConsoleLogNull
  | ConsoleError js_error

fun apply_effect :: "state \<Rightarrow> effect \<Rightarrow> state" where
  "apply_effect s (AppendMessage m) = s\<lparr>messages := messages s @ [m]\<rparr>"
| "apply_effect s (AppendThrows e) = s"
| "apply_effect s (SetLoading b) = s\<lparr>loading := b\<rparr>"
| "apply_effect s (SetInputText t) = s\<lparr>inputText := t\<rparr>"
| "apply_effect s (SetPdfFile f) = s\<lparr>pdfFile := f\<rparr>"
| "apply_effect s (SetFileInputValue v) =
     s\<lparr>fileInputRef := map_option (\<lambda>el. el\<lparr>input_value := v\<rparr>) (fileInputRef s)\<rparr>"
| "apply_effect s (Fetch r) = s"
| "apply_effect s (ConsoleLog d) = s"
| "apply_effect s ConsoleLogNull = s"
| "apply_effect s (ConsoleError e) = s"

definition run :: "effect list \<Rightarrow> state \<Rightarrow> state" where
  "run effs s = foldl apply_effect s effs"

text \<open>
  What a sequence of effects appends, issues and writes to the pending flag, and the
  exceptions it leaves to the render.
\<close>

fun appended :: "effect list \<Rightarrow> ChatMessageType list" where
  "appended [] = []"
| "appended (AppendMessage m # effs) = m # appended effs"
| "appended (_ # effs) = appended effs"

fun fetches :: "effect list \<Rightarrow> request list" where
  "fetches [] = []"
| "fetches (Fetch r # effs) = r # fetches effs"
| "fetches (_ # effs) = fetches effs"

fun loading_writes :: "effect list \<Rightarrow> bool list" where
  "loading_writes [] = []"
| "loading_writes (SetLoading b # effs) = b # loading_writes effs"
| "loading_writes (_ # effs) = loading_writes effs"

fun render_errors :: "effect list \<Rightarrow> js_error list" where
  "render_errors [] = []"
| "render_errors (AppendThrows e # effs) = e # render_errors effs"
| "render_errors (_ # effs) = render_errors effs"

section \<open>The component\<close>

definition endpoint :: jsstring where
  "endpoint = ascii ''http://127.0.0.1:8000/ask''"

definition warning_sign :: jsstring where
  "warning_sign = [0x26A0, 0xFE0F]"

definition no_response_text :: jsstring where
  "no_response_text = warning_sign @ ascii '' No response field in server reply.''"

definition error_text :: jsstring where
  "error_text = warning_sign @ ascii '' Error connecting to server.''"

text \<open>
  \<^verbatim>\<open>v || d\<close> for a string \<^verbatim>\<open>v\<close> that may be \<^verbatim>\<open>undefined\<close>: \<^verbatim>\<open>undefined\<close> and
  the empty string are falsy, every other string is truthy.
\<close>

fun or_else :: "jsstring option \<Rightarrow> jsstring \<Rightarrow> jsstring" where
  "or_else None d = d"
| "or_else (Some v) d = (if v \<noteq> [] then v else d)"

text \<open>
  \<^verbatim>\<open>sendMessage\<close> up to its first \<^verbatim>\<open>await\<close>: the guard, the user's message, the
  pending flag, the form and the call of \<^verbatim>\<open>fetch\<close>. This part runs inside the caller.
  The parameter \<^verbatim>\<open>pdfFile\<close>, which shadows the state cell of that name, is \<open>file\<close> here.
\<close>

definition formData :: "jsstring \<Rightarrow> File option \<Rightarrow> (jsstring \<times> form_value) list" where
  "formData userQuery file =
     (ascii ''user_query'', FormText (to_usv userQuery)) #
     (case file of None \<Rightarrow> [] | Some f \<Rightarrow> [(ascii ''pdf_file'', FormFile f)])"

definition sendMessage_start :: "jsstring \<Rightarrow> File option \<Rightarrow> effect list" where
  "sendMessage_start userQuery file =
     (if trim userQuery = [] \<and> file = None then []
      else [AppendMessage \<lparr>sender = User, msg_text = userQuery, pdf = map_option name file\<rparr>,
            SetLoading True,
            Fetch \<lparr>url = endpoint, http_method = ascii ''POST'', body = formData userQuery file\<rparr>])"

text \<open>
  The rest of the \<^verbatim>\<open>try\<close> block, once \<^verbatim>\<open>fetch\<close> has settled: the effects performed and
  the exception raised, if any. \<^verbatim>\<open>data.response || "..."\<close> stands inside the function
  given to \<^verbatim>\<open>setMessages\<close>: for the body \<^verbatim>\<open>null\<close> it throws a TypeError there, so
  the block itself raises nothing and the \<^verbatim>\<open>catch\<close> clause is not entered.
\<close>

definition try_block :: "fetch_result \<Rightarrow> effect list \<times> js_error option" where
  "try_block settled =
     (case settled of
        FetchRejects \<Rightarrow> ([], Some NetworkError)
      | FetchResolves res \<Rightarrow>
          if \<not> ok res then ([], Some (ServerError (status res)))
          else (case json res of
                  BodyRejects \<Rightarrow> ([], Some JsonError)
                | BodyNull \<Rightarrow> ([ConsoleLogNull, AppendThrows TypeError], None)
                | BodyJson data \<Rightarrow>
                    ([ConsoleLog data,
                      AppendMessage \<lparr>sender = Bot,
                                     msg_text = or_else (response data) no_response_text,
                                     pdf = None\<rparr>], None)))"

definition catch_block :: "js_error \<Rightarrow> effect list" where
  "catch_block err =
     [ConsoleError err,
      AppendMessage \<lparr>sender = Bot, msg_text = error_text, pdf = None\<rparr>]"

definition finally_block :: "effect list" where
  "finally_block = [SetLoading False]"

definition sendMessage_resume :: "fetch_result \<Rightarrow> effect list" where
  "sendMessage_resume settled =
     (case try_block settled of
        (effs, None) \<Rightarrow> effs @ finally_block
      | (effs, Some err) \<Rightarrow> effs @ catch_block err @ finally_block)"

definition handleSend :: "state \<Rightarrow> effect list" where
  "handleSend s =
     (if trim (inputText s) \<noteq> [] \<or> pdfFile s \<noteq> None
      then sendMessage_start (inputText s) (pdfFile s) @
           [SetInputText [], SetPdfFile None] @
           (if fileInputRef s \<noteq> None then [SetFileInputValue []] else [])
      else [])"

text \<open>
  \<^verbatim>\<open>handleFileSelect\<close>: \<^verbatim>\<open>e.target.files?.[0]\<close> is the first selected file, if there is
  a file list and it is not empty.
\<close>

definition first_file :: "File list option \<Rightarrow> File option" where
  "first_file files = (case files of None \<Rightarrow> None | Some [] \<Rightarrow> None | Some (f # _) \<Rightarrow> Some f)"

definition handleFileSelect :: "File list option \<Rightarrow> effect list" where
  "handleFileSelect files =
     (case first_file files of
        None \<Rightarrow> []
      | Some file \<Rightarrow> if type file = ascii ''application/pdf'' then [SetPdfFile (Some file)] else [])"

section \<open>Auxiliary facts\<close>

lemma trim_empty_iff: "trim s = [] \<longleftrightarrow> (\<forall>c\<in>set s. is_ws c)"
proof
  assume "\<forall>c\<in>set s. is_ws c"
  then have "dropWhile is_ws s = []" by simp
  then show "trim s = []" unfolding trim_def by (simp del: dropWhile_eq_Nil_conv)
next
  assume t: "trim s = []"
  show "\<forall>c\<in>set s. is_ws c"
  proof (cases "dropWhile is_ws s = []")
    case True
    then show ?thesis by simp
  next
    case False
    then have "\<not> is_ws (hd (dropWhile is_ws s))" by (rule hd_dropWhile)
    moreover have "hd (dropWhile is_ws s) \<in> set (rev (dropWhile is_ws s))"
      using False by simp
    moreover from t have "\<forall>c\<in>set (rev (dropWhile is_ws s)). is_ws c"
      by (simp add: trim_def)
    ultimately show ?thesis by blast
  qed
qed

lemma sendMessage_start_dispatched:
  assumes "(\<exists>c\<in>set userQuery. \<not> is_ws c) \<or> file \<noteq> None"
  shows "sendMessage_start userQuery file =
           [AppendMessage \<lparr>sender = User, msg_text = userQuery, pdf = map_option name file\<rparr>,
            SetLoading True,
            Fetch \<lparr>url = endpoint, http_method = ascii ''POST'', body = formData userQuery file\<rparr>]"
  using assms unfolding sendMessage_start_def by (auto simp: trim_empty_iff)

lemma sendMessage_start_rejected:
  assumes "\<forall>c\<in>set userQuery. is_ws c"
  shows "sendMessage_start userQuery None = []"
  using assms unfolding sendMessage_start_def by (simp add: trim_empty_iff)

lemma messages_run: "messages (run effs s) = messages s @ appended effs"
  unfolding run_def
  by (induction effs arbitrary: s rule: appended.induct) simp_all

lemma loading_run:
  "loading (run effs s) = (if loading_writes effs = [] then loading s else last (loading_writes effs))"
  unfolding run_def
  by (induction effs arbitrary: s rule: loading_writes.induct) simp_all

text \<open>
  The shape of every completion: console output, one call of \<^verbatim>\<open>setMessages\<close>, the flag
  reset.
\<close>

lemma sendMessage_resume_cases:
  "(\<exists>d t. sendMessage_resume settled =
      [ConsoleLog d, AppendMessage \<lparr>sender = Bot, msg_text = t, pdf = None\<rparr>, SetLoading False]) \<or>
   (\<exists>e. sendMessage_resume settled =
      [ConsoleError e, AppendMessage \<lparr>sender = Bot, msg_text = error_text, pdf = None\<rparr>,
       SetLoading False]) \<or>
   sendMessage_resume settled = [ConsoleLogNull, AppendThrows TypeError, SetLoading False]"
  unfolding sendMessage_resume_def try_block_def catch_block_def finally_block_def
  by (simp split: fetch_result.split body_result.split)

text \<open>Unless the body is \<^verbatim>\<open>null\<close>, the completion appends one message, the bot's.\<close>

lemma appended_resume:
  assumes "\<And>res. settled = FetchResolves res \<Longrightarrow> ok res \<Longrightarrow> json res \<noteq> BodyNull"
  shows "\<exists>bm. appended (sendMessage_resume settled) = [bm] \<and> sender bm = Bot \<and>
           messages (run (sendMessage_resume settled) s) = messages s @ [bm]"
proof -
  have "\<exists>bm. appended (sendMessage_resume settled) = [bm] \<and> sender bm = Bot"
    using assms
    unfolding sendMessage_resume_def try_block_def catch_block_def finally_block_def
    by (auto split: fetch_result.split body_result.split)
  then show ?thesis by (auto simp: messages_run)
qed

lemma loading_writes_resume: "loading_writes (sendMessage_resume settled) = [False]"
  using sendMessage_resume_cases [of settled] by auto

lemma frame_resume:
  "inputText (run (sendMessage_resume settled) s) = inputText s \<and>
   pdfFile (run (sendMessage_resume settled) s) = pdfFile s \<and>
   fileInputRef (run (sendMessage_resume settled) s) = fileInputRef s"
  using sendMessage_resume_cases [of settled] by (auto simp: run_def)

section \<open>The turn\<close>

text \<open>
  A turn that is dispatched (the text has a character that is not white space, or a file
  is given) appends exactly one message, the user's, before the call is issued; and
  however the call settles, unless it settles with \<^verbatim>\<open>ok\<close> true and the body \<^verbatim>\<open>null\<close>,
  the completion appends exactly one message, the bot's.
\<close>

lemma dispatched_turn_one_user_one_bot_unless_null:
  assumes "(\<exists>c\<in>set userQuery. \<not> is_ws c) \<or> file \<noteq> None"
    and "\<And>res. settled = FetchResolves res \<Longrightarrow> ok res \<Longrightarrow> json res \<noteq> BodyNull"
  shows "(\<exists>um. appended (sendMessage_start userQuery file) = [um] \<and> sender um = User \<and>
            messages (run (sendMessage_start userQuery file) s) = messages s @ [um]) \<and>
         (\<exists>bm. appended (sendMessage_resume settled) = [bm] \<and> sender bm = Bot \<and>
            messages (run (sendMessage_resume settled) s') = messages s' @ [bm])"
proof
  show "\<exists>um. appended (sendMessage_start userQuery file) = [um] \<and> sender um = User \<and>
          messages (run (sendMessage_start userQuery file) s) = messages s @ [um]"
    by (simp add: sendMessage_start_dispatched [OF assms(1)] messages_run)
next
  show "\<exists>bm. appended (sendMessage_resume settled) = [bm] \<and> sender bm = Bot \<and>
          messages (run (sendMessage_resume settled) s') = messages s' @ [bm]"
    using assms(2) by (rule appended_resume)
qed

text \<open>
  C1 fails in the code for a reply with \<^verbatim>\<open>ok\<close> true and the body \<^verbatim>\<open>null\<close>. The turn
  with the text \<^verbatim>\<open>hi\<close> and no file appends its user message; when the call settles with
  that reply, \<^verbatim>\<open>data.response\<close> throws inside the function given to \<^verbatim>\<open>setMessages\<close>,
  the \<^verbatim>\<open>catch\<close> clause is not entered, and the completion appends no bot message: the
  list ends with the user's message alone, and a TypeError is left to the render.
\<close>

theorem null_body_turn_appends_no_bot_message:
  "appended (sendMessage_start [0x68, 0x69] None) =
     [\<lparr>sender = User, msg_text = [0x68, 0x69], pdf = None\<rparr>] \<and>
   appended (sendMessage_resume
      (FetchResolves \<lparr>ok = True, status = 200, json = BodyNull\<rparr>)) = [] \<and>
   render_errors (sendMessage_resume
      (FetchResolves \<lparr>ok = True, status = 200, json = BodyNull\<rparr>)) = [TypeError] \<and>
   messages (run (sendMessage_resume (FetchResolves \<lparr>ok = True, status = 200, json = BodyNull\<rparr>))
      (run (sendMessage_start [0x68, 0x69] None)
         \<lparr>messages = [], loading = False, inputText = [0x68, 0x69], pdfFile = None,
          fileInputRef = None\<rparr>)) =
     [\<lparr>sender = User, msg_text = [0x68, 0x69], pdf = None\<rparr>]"
  by (simp add: sendMessage_start_def sendMessage_resume_def try_block_def finally_block_def
      trim_def is_ws_def run_def)

text \<open>
  C2. Whenever \<^verbatim>\<open>sendMessage\<close> issues the network call, it has written \<open>True\<close> to the
  pending flag just before, once, and the flag stays set through the rest of the
  caller (\<^verbatim>\<open>handleSend\<close>); on every way the call can settle the completion writes the
  flag exactly once, \<open>False\<close>, as its last effect, and the flag is then unset.
\<close>

theorem pending_flag_set_then_reset_once:
  assumes "fetches (sendMessage_start userQuery file) \<noteq> []"
  shows "(\<exists>um req. sendMessage_start userQuery file = [AppendMessage um, SetLoading True, Fetch req]) \<and>
         loading (run (sendMessage_start userQuery file) s) \<and>
         loading (run (handleSend (s\<lparr>inputText := userQuery, pdfFile := file\<rparr>))
                      (s\<lparr>inputText := userQuery, pdfFile := file\<rparr>)) \<and>
         loading_writes (sendMessage_resume settled) = [False] \<and>
         last (sendMessage_resume settled) = SetLoading False \<and>
         \<not> loading (run (sendMessage_resume settled) s')"
proof -
  have d: "(\<exists>c\<in>set userQuery. \<not> is_ws c) \<or> file \<noteq> None"
    using assms unfolding sendMessage_start_def by (auto simp: trim_empty_iff split: if_splits)
  note st = sendMessage_start_dispatched [OF d]
  have "last (sendMessage_resume settled) = SetLoading False"
    using sendMessage_resume_cases [of settled] by auto
  moreover have "loading (run (handleSend (s\<lparr>inputText := userQuery, pdfFile := file\<rparr>))
                      (s\<lparr>inputText := userQuery, pdfFile := file\<rparr>))"
    using d by (simp add: handleSend_def st loading_run trim_empty_iff)
  ultimately show ?thesis
    by (simp add: st loading_run loading_writes_resume)
qed

theorem pending_flag_set_then_reset_once_witness:
  "fetches (sendMessage_start [0x3F] None) \<noteq> [] \<and>
   loading_writes (sendMessage_start [0x3F] None) = [True] \<and>
   loading (run (sendMessage_start [0x3F] None)
      \<lparr>messages = [], loading = False, inputText = [0x3F], pdfFile = None, fileInputRef = None\<rparr>) \<and>
   loading_writes (sendMessage_resume (FetchResolves \<lparr>ok = False, status = 500, json = BodyRejects\<rparr>)) = [False] \<and>
   \<not> loading (run (sendMessage_resume (FetchResolves \<lparr>ok = False, status = 500, json = BodyRejects\<rparr>))
      \<lparr>messages = [], loading = True, inputText = [], pdfFile = None, fileInputRef = None\<rparr>)"
proof -
  have h: "fetches (sendMessage_start [0x3F] None) \<noteq> []"
    by (simp add: sendMessage_start_def trim_def is_ws_def)
  from pending_flag_set_then_reset_once [OF h,
      of "\<lparr>messages = [], loading = False, inputText = [0x3F], pdfFile = None, fileInputRef = None\<rparr>"
         "FetchResolves \<lparr>ok = False, status = 500, json = BodyRejects\<rparr>"
         "\<lparr>messages = [], loading = True, inputText = [], pdfFile = None, fileInputRef = None\<rparr>"]
  show ?thesis using h by auto
qed

text \<open>
  C3. When every character of the text is white space (the empty text included) and no
  file is given, \<^verbatim>\<open>sendMessage\<close> returns at its guard: it performs no effect, so it
  appends no message, issues no call and leaves the state as it was. \<^verbatim>\<open>handleSend\<close>
  on such a state does nothing either.
\<close>

theorem blank_input_is_no_op:
  assumes "\<forall>c\<in>set userQuery. is_ws c"
  shows "sendMessage_start userQuery None = [] \<and>
         appended (sendMessage_start userQuery None) = [] \<and>
         fetches (sendMessage_start userQuery None) = [] \<and>
         run (sendMessage_start userQuery None) s = s \<and>
         handleSend (s\<lparr>inputText := userQuery, pdfFile := None\<rparr>) = []"
  using assms
  by (simp add: sendMessage_start_rejected run_def handleSend_def trim_empty_iff)

theorem blank_input_is_no_op_witness:
  "is_ws 0x20 \<and> is_ws 0x0A \<and>
   sendMessage_start [0x20, 0x0A, 0x20] None = [] \<and>
   run (sendMessage_start [0x20, 0x0A, 0x20] None)
     \<lparr>messages = [], loading = False, inputText = [0x20, 0x0A, 0x20], pdfFile = None,
      fileInputRef = Some \<lparr>input_value = []\<rparr>\<rparr> =
     \<lparr>messages = [], loading = False, inputText = [0x20, 0x0A, 0x20], pdfFile = None,
      fileInputRef = Some \<lparr>input_value = []\<rparr>\<rparr> \<and>
   handleSend \<lparr>messages = [], loading = False, inputText = [0x20, 0x0A, 0x20], pdfFile = None,
      fileInputRef = Some \<lparr>input_value = []\<rparr>\<rparr> = []"
proof -
  have h: "\<forall>c\<in>set [0x20, 0x0A, 0x20 :: 16 word]. is_ws c"
    by (simp add: is_ws_def)
  from blank_input_is_no_op [OF h,
      of "\<lparr>messages = [], loading = False, inputText = [0x20, 0x0A, 0x20], pdfFile = None,
      fileInputRef = Some \<lparr>input_value = []\<rparr>\<rparr>"]
  show ?thesis using h by (simp add: run_def)
qed

text \<open>
  C4. A response whose \<^verbatim>\<open>ok\<close> is false, a rejected \<^verbatim>\<open>fetch\<close> and a body that
  \<^verbatim>\<open>json()\<close> rejects all end the turn in the \<^verbatim>\<open>catch\<close> clause: the error goes to the
  console, one bot message with the text \<^verbatim>\<open>Error connecting to server.\<close> (after the
  warning sign) is appended, no further call is issued, and the pending flag ends unset.
\<close>

theorem failures_end_as_bot_error_message:
  assumes "settled = FetchRejects \<or>
           settled = FetchResolves res \<and> (\<not> ok res \<or> json res = BodyRejects)"
  shows "(\<exists>err. sendMessage_resume settled =
            [ConsoleError err,
             AppendMessage \<lparr>sender = Bot, msg_text = error_text, pdf = None\<rparr>,
             SetLoading False]) \<and>
         fetches (sendMessage_resume settled) = [] \<and>
         messages (run (sendMessage_resume settled) s) =
           messages s @ [\<lparr>sender = Bot, msg_text = error_text, pdf = None\<rparr>] \<and>
         \<not> loading (run (sendMessage_resume settled) s)"
proof -
  have "\<exists>err. sendMessage_resume settled =
            [ConsoleError err,
             AppendMessage \<lparr>sender = Bot, msg_text = error_text, pdf = None\<rparr>,
             SetLoading False]"
    using assms
    unfolding sendMessage_resume_def try_block_def catch_block_def finally_block_def
    by auto
  then show ?thesis
    by (auto simp: messages_run loading_run)
qed

theorem failures_end_as_bot_error_message_witness:
  "sendMessage_resume (FetchResolves \<lparr>ok = False, status = 500, json = BodyJson \<lparr>response = None\<rparr>\<rparr>) =
     [ConsoleError (ServerError 500),
      AppendMessage \<lparr>sender = Bot, msg_text = error_text, pdf = None\<rparr>,
      SetLoading False] \<and>
   \<not> loading (run (sendMessage_resume (FetchResolves \<lparr>ok = False, status = 500, json = BodyJson \<lparr>response = None\<rparr>\<rparr>))
      \<lparr>messages = [], loading = True, inputText = [], pdfFile = None, fileInputRef = None\<rparr>)"
proof -
  let ?res = "\<lparr>ok = False, status = 500, json = BodyJson \<lparr>response = None\<rparr>\<rparr>"
  have h: "FetchResolves ?res = FetchRejects \<or>
           FetchResolves ?res = FetchResolves ?res \<and> (\<not> ok ?res \<or> json ?res = BodyRejects)"
    by simp
  from failures_end_as_bot_error_message [OF h,
      of "\<lparr>messages = [], loading = True, inputText = [], pdfFile = None, fileInputRef = None\<rparr>"]
  show ?thesis
    by (auto simp: sendMessage_resume_def try_block_def catch_block_def finally_block_def)
qed

text \<open>
  C10. The user message of a dispatched turn has the text as it was given, with its white
  space, and the name of the file if there is one: white space alone, sent with a file,
  appears as that white space beside the file's name.
\<close>

theorem user_message_text_verbatim:
  assumes "(\<exists>c\<in>set userQuery. \<not> is_ws c) \<or> file \<noteq> None"
  shows "appended (sendMessage_start userQuery file) =
           [\<lparr>sender = User, msg_text = userQuery, pdf = map_option name file\<rparr>]"
  by (simp add: sendMessage_start_dispatched [OF assms])

theorem user_message_text_verbatim_witness:
  "is_ws 0x20 \<and> is_ws 0x09 \<and>
   appended (sendMessage_start [0x20, 0x09, 0x20]
      (Some \<lparr>name = ascii ''report.pdf'', type = ascii ''application/pdf''\<rparr>)) =
     [\<lparr>sender = User, msg_text = [0x20, 0x09, 0x20], pdf = Some (ascii ''report.pdf'')\<rparr>]"
proof -
  let ?f = "\<lparr>name = ascii ''report.pdf'', type = ascii ''application/pdf''\<rparr>"
  have h: "(\<exists>c\<in>set [0x20, 0x09, 0x20 :: 16 word]. \<not> is_ws c) \<or> Some ?f \<noteq> None"
    by simp
  from user_message_text_verbatim [OF h]
  show ?thesis by (simp add: is_ws_def)
qed

section \<open>Replies\<close>

text \<open>
  C5, as stated, fails where the reply is the empty string: \<^verbatim>\<open>data.response || "..."\<close>
  takes the right operand, so the body \<^verbatim>\<open>{ "response": "" }\<close> gives the notice that
  there is no response field, not a message whose text is the empty string.
\<close>

theorem empty_reply_not_shown_counterexample:
  "map msg_text (appended (sendMessage_resume
      (FetchResolves \<lparr>ok = True, status = 200, json = BodyJson \<lparr>response = Some []\<rparr>\<rparr>))) =
     [no_response_text] \<and>
   no_response_text \<noteq> []"
  by (simp add: sendMessage_resume_def try_block_def finally_block_def no_response_text_def
      warning_sign_def)

text \<open>
  C5, amended. For a response with \<^verbatim>\<open>ok\<close> true whose body has a string that is not
  empty under \<^verbatim>\<open>response\<close>, the one bot message appended has exactly that string as its
  text; so \<^verbatim>\<open>{ "response": "Take two tablets." }\<close> gives a bot message with the text
  \<^verbatim>\<open>Take two tablets.\<close>.
\<close>

theorem nonempty_reply_shown_verbatim:
  assumes "ok res" and "json res = BodyJson data"
    and "response data = Some reply" and "reply \<noteq> []"
  shows "sendMessage_resume (FetchResolves res) =
           [ConsoleLog data,
            AppendMessage \<lparr>sender = Bot, msg_text = reply, pdf = None\<rparr>,
            SetLoading False] \<and>
         messages (run (sendMessage_resume (FetchResolves res)) s) =
           messages s @ [\<lparr>sender = Bot, msg_text = reply, pdf = None\<rparr>]"
proof -
  have "sendMessage_resume (FetchResolves res) =
           [ConsoleLog data,
            AppendMessage \<lparr>sender = Bot, msg_text = reply, pdf = None\<rparr>,
            SetLoading False]"
    using assms by (simp add: sendMessage_resume_def try_block_def finally_block_def)
  then show ?thesis by (simp add: messages_run)
qed

theorem nonempty_reply_shown_verbatim_witness:
  "ascii ''Take two tablets.'' \<noteq> [] \<and>
   map msg_text (appended (sendMessage_resume
      (FetchResolves \<lparr>ok = True, status = 200,
         json = BodyJson \<lparr>response = Some (ascii ''Take two tablets.'')\<rparr>\<rparr>))) =
     [ascii ''Take two tablets.'']"
proof -
  let ?data = "\<lparr>response = Some (ascii ''Take two tablets.'')\<rparr>"
  let ?res = "\<lparr>ok = True, status = 200, json = BodyJson ?data\<rparr>"
  have h: "ascii ''Take two tablets.'' \<noteq> []"
    by (simp add: ascii_def)
  have "sendMessage_resume (FetchResolves ?res) =
           [ConsoleLog ?data,
            AppendMessage \<lparr>sender = Bot, msg_text = ascii ''Take two tablets.'', pdf = None\<rparr>,
            SetLoading False]"
    using nonempty_reply_shown_verbatim [of ?res ?data "ascii ''Take two tablets.''", OF _ _ _ h]
    by simp
  then show ?thesis using h by simp
qed

text \<open>
  For a response with \<^verbatim>\<open>ok\<close> true whose body is an object without \<^verbatim>\<open>response\<close>, the
  empty object \<^verbatim>\<open>{}\<close> for one, the completion raises nothing: it appends one bot message,
  the notice that there is no response field, and resets the pending flag as on any
  other path.
\<close>

lemma object_without_reply_gives_fallback:
  assumes "ok res" and "json res = BodyJson data" and "response data = None"
  shows "sendMessage_resume (FetchResolves res) =
           [ConsoleLog data,
            AppendMessage \<lparr>sender = Bot, msg_text = no_response_text, pdf = None\<rparr>,
            SetLoading False] \<and>
         snd (try_block (FetchResolves res)) = None \<and>
         messages (run (sendMessage_resume (FetchResolves res)) s) =
           messages s @ [\<lparr>sender = Bot, msg_text = no_response_text, pdf = None\<rparr>]"
proof -
  have "sendMessage_resume (FetchResolves res) =
           [ConsoleLog data,
            AppendMessage \<lparr>sender = Bot, msg_text = no_response_text, pdf = None\<rparr>,
            SetLoading False]"
    using assms by (simp add: sendMessage_resume_def try_block_def finally_block_def)
  moreover have "snd (try_block (FetchResolves res)) = None"
    using assms by (simp add: try_block_def)
  ultimately show ?thesis by (simp add: messages_run)
qed

text \<open>
  C6 fails in the code for the body \<^verbatim>\<open>null\<close>, which is JSON and has no reply field:
  with \<^verbatim>\<open>ok\<close> true the completion logs the body, calls \<^verbatim>\<open>setMessages\<close> with a function
  that throws a TypeError at \<^verbatim>\<open>data.response\<close>, and resets the flag. No message with
  the notice that there is no response field is appended, to the effects or to the list;
  the empty object \<^verbatim>\<open>{}\<close> in the same reply does get the notice.
\<close>

theorem null_body_gives_no_fallback:
  "sendMessage_resume (FetchResolves \<lparr>ok = True, status = 200, json = BodyNull\<rparr>) =
     [ConsoleLogNull, AppendThrows TypeError, SetLoading False] \<and>
   \<lparr>sender = Bot, msg_text = no_response_text, pdf = None\<rparr> \<notin>
     set (appended (sendMessage_resume
       (FetchResolves \<lparr>ok = True, status = 200, json = BodyNull\<rparr>))) \<and>
   messages (run (sendMessage_resume (FetchResolves \<lparr>ok = True, status = 200, json = BodyNull\<rparr>))
      \<lparr>messages = [], loading = True, inputText = [], pdfFile = None, fileInputRef = None\<rparr>) = [] \<and>
   appended (sendMessage_resume
      (FetchResolves \<lparr>ok = True, status = 200, json = BodyJson \<lparr>response = None\<rparr>\<rparr>)) =
     [\<lparr>sender = Bot, msg_text = no_response_text, pdf = None\<rparr>]"
  by (simp add: sendMessage_resume_def try_block_def finally_block_def run_def)

text \<open>
  C9. For a response with \<^verbatim>\<open>ok\<close> true whose body has the empty string under
  \<^verbatim>\<open>response\<close>, the bot message appended carries the notice that there is no response
  field, which is not the empty string: the same message as for a body without the field.
\<close>

theorem empty_reply_treated_as_missing:
  assumes "ok res" and "json res = BodyJson data" and "response data = Some []"
  shows "sendMessage_resume (FetchResolves res) =
           [ConsoleLog data,
            AppendMessage \<lparr>sender = Bot, msg_text = no_response_text, pdf = None\<rparr>,
            SetLoading False] \<and>
         appended (sendMessage_resume (FetchResolves res)) =
           appended (sendMessage_resume
             (FetchResolves (res\<lparr>json := BodyJson (data\<lparr>response := None\<rparr>)\<rparr>))) \<and>
         no_response_text \<noteq> []"
  using assms
  by (simp add: sendMessage_resume_def try_block_def finally_block_def no_response_text_def
      warning_sign_def)

theorem empty_reply_treated_as_missing_witness:
  "appended (sendMessage_resume
      (FetchResolves \<lparr>ok = True, status = 201, json = BodyJson \<lparr>response = Some []\<rparr>\<rparr>)) =
     [\<lparr>sender = Bot, msg_text = no_response_text, pdf = None\<rparr>]"
proof -
  let ?data = "\<lparr>response = Some []\<rparr>"
  let ?res = "\<lparr>ok = True, status = 201, json = BodyJson ?data\<rparr>"
  from empty_reply_treated_as_missing [of ?res ?data]
  show ?thesis by simp
qed

section \<open>Staged input\<close>

text \<open>
  C7. When \<^verbatim>\<open>handleSend\<close> dispatches (the text has a character that is not white space,
  or a file is staged), the call is issued and, in the same handler, the text becomes
  empty, the staged file none and the value of the file input (when the ref is set) the
  empty string; the completion, however the call settles, leaves all three as they are.
\<close>

theorem send_clears_staged_input:
  assumes "(\<exists>c\<in>set (inputText s). \<not> is_ws c) \<or> pdfFile s \<noteq> None"
  shows "fetches (handleSend s) \<noteq> [] \<and>
         inputText (run (handleSend s) s) = [] \<and>
         pdfFile (run (handleSend s) s) = None \<and>
         fileInputRef (run (handleSend s) s) =
           map_option (\<lambda>el. el\<lparr>input_value := []\<rparr>) (fileInputRef s) \<and>
         inputText (run (sendMessage_resume settled) (run (handleSend s) s)) = [] \<and>
         pdfFile (run (sendMessage_resume settled) (run (handleSend s) s)) = None \<and>
         fileInputRef (run (sendMessage_resume settled) (run (handleSend s) s)) =
           map_option (\<lambda>el. el\<lparr>input_value := []\<rparr>) (fileInputRef s)"
proof -
  have g: "trim (inputText s) \<noteq> [] \<or> pdfFile s \<noteq> None"
    using assms by (auto simp: trim_empty_iff)
  note st = sendMessage_start_dispatched [OF assms]
  have "fetches (handleSend s) \<noteq> []"
    using g by (simp add: handleSend_def st)
  moreover have "inputText (run (handleSend s) s) = []"
    using g by (simp add: handleSend_def st run_def)
  moreover have "pdfFile (run (handleSend s) s) = None"
    using g by (simp add: handleSend_def st run_def)
  moreover have "fileInputRef (run (handleSend s) s) =
           map_option (\<lambda>el. el\<lparr>input_value := []\<rparr>) (fileInputRef s)"
    using g by (cases "fileInputRef s") (simp_all add: handleSend_def st run_def)
  ultimately show ?thesis
    by (simp add: frame_resume)
qed

theorem send_clears_staged_input_witness:
  "fetches (handleSend
      \<lparr>messages = [], loading = False, inputText = [],
       pdfFile = Some \<lparr>name = ascii ''scan.pdf'', type = ascii ''application/pdf''\<rparr>,
       fileInputRef = Some \<lparr>input_value = ascii ''C:/fakepath/scan.pdf''\<rparr>\<rparr>) \<noteq> [] \<and>
   run (sendMessage_resume FetchRejects)
     (run (handleSend
        \<lparr>messages = [], loading = False, inputText = [],
         pdfFile = Some \<lparr>name = ascii ''scan.pdf'', type = ascii ''application/pdf''\<rparr>,
         fileInputRef = Some \<lparr>input_value = ascii ''C:/fakepath/scan.pdf''\<rparr>\<rparr>)
        \<lparr>messages = [], loading = False, inputText = [],
         pdfFile = Some \<lparr>name = ascii ''scan.pdf'', type = ascii ''application/pdf''\<rparr>,
         fileInputRef = Some \<lparr>input_value = ascii ''C:/fakepath/scan.pdf''\<rparr>\<rparr>) =
     \<lparr>messages = [\<lparr>sender = User, msg_text = [], pdf = Some (ascii ''scan.pdf'')\<rparr>,
                  \<lparr>sender = Bot, msg_text = error_text, pdf = None\<rparr>],
      loading = False, inputText = [], pdfFile = None,
      fileInputRef = Some \<lparr>input_value = []\<rparr>\<rparr>"
proof -
  let ?s = "\<lparr>messages = [], loading = False, inputText = [],
       pdfFile = Some \<lparr>name = ascii ''scan.pdf'', type = ascii ''application/pdf''\<rparr>,
       fileInputRef = Some \<lparr>input_value = ascii ''C:/fakepath/scan.pdf''\<rparr>\<rparr>"
  have h: "(\<exists>c\<in>set (inputText ?s). \<not> is_ws c) \<or> pdfFile ?s \<noteq> None"
    by simp
  have "fetches (handleSend ?s) \<noteq> []"
    using send_clears_staged_input [OF h, of FetchRejects] by blast
  moreover have "run (sendMessage_resume FetchRejects) (run (handleSend ?s) ?s) =
     \<lparr>messages = [\<lparr>sender = User, msg_text = [], pdf = Some (ascii ''scan.pdf'')\<rparr>,
                  \<lparr>sender = Bot, msg_text = error_text, pdf = None\<rparr>],
      loading = False, inputText = [], pdfFile = None,
      fileInputRef = Some \<lparr>input_value = []\<rparr>\<rparr>"
    by (simp add: run_def handleSend_def sendMessage_start_def sendMessage_resume_def
        try_block_def catch_block_def finally_block_def)
  ultimately show ?thesis by blast
qed

text \<open>
  C8. When the first selected file has a type other than \<^verbatim>\<open>application/pdf\<close>,
  \<^verbatim>\<open>handleFileSelect\<close> performs no effect: the state, the staged file with it, is as
  before, and nothing is appended or logged. When its type is \<^verbatim>\<open>application/pdf\<close> it
  becomes the staged file. Nothing else makes the handler act.
\<close>

theorem only_pdf_is_staged:
  "(type f \<noteq> ascii ''application/pdf'' \<longrightarrow>
      handleFileSelect (Some (f # rest)) = [] \<and>
      run (handleFileSelect (Some (f # rest))) s = s) \<and>
   (type f = ascii ''application/pdf'' \<longrightarrow>
      handleFileSelect (Some (f # rest)) = [SetPdfFile (Some f)] \<and>
      run (handleFileSelect (Some (f # rest))) s = s\<lparr>pdfFile := Some f\<rparr>) \<and>
   (handleFileSelect files \<noteq> [] \<longrightarrow>
      (\<exists>g more. files = Some (g # more) \<and> type g = ascii ''application/pdf''))"
  by (auto simp: handleFileSelect_def first_file_def run_def split: option.splits list.splits if_splits)

theorem only_pdf_is_staged_witness:
  "type \<lparr>name = ascii ''cat.png'', type = ascii ''image/png''\<rparr> \<noteq> ascii ''application/pdf'' \<and>
   run (handleFileSelect (Some [\<lparr>name = ascii ''cat.png'', type = ascii ''image/png''\<rparr>]))
     \<lparr>messages = [], loading = False, inputText = [], pdfFile = None,
      fileInputRef = Some \<lparr>input_value = []\<rparr>\<rparr> =
     \<lparr>messages = [], loading = False, inputText = [], pdfFile = None,
      fileInputRef = Some \<lparr>input_value = []\<rparr>\<rparr> \<and>
   pdfFile (run (handleFileSelect (Some [\<lparr>name = ascii ''a.pdf'', type = ascii ''application/pdf''\<rparr>]))
     \<lparr>messages = [], loading = False, inputText = [], pdfFile = None,
      fileInputRef = Some \<lparr>input_value = []\<rparr>\<rparr>) =
     Some \<lparr>name = ascii ''a.pdf'', type = ascii ''application/pdf''\<rparr>"
proof -
  let ?s = "\<lparr>messages = [], loading = False, inputText = [], pdfFile = None,
      fileInputRef = Some \<lparr>input_value = []\<rparr>\<rparr>"
  have h: "type \<lparr>name = ascii ''cat.png'', type = ascii ''image/png''\<rparr> \<noteq> ascii ''application/pdf''"
    by (simp add: ascii_def)
  have "run (handleFileSelect (Some [\<lparr>name = ascii ''cat.png'', type = ascii ''image/png''\<rparr>])) ?s = ?s"
    using only_pdf_is_staged [of "\<lparr>name = ascii ''cat.png'', type = ascii ''image/png''\<rparr>" "[]" ?s None] h
    by blast
  moreover have "pdfFile (run (handleFileSelect (Some [\<lparr>name = ascii ''a.pdf'', type = ascii ''application/pdf''\<rparr>])) ?s) =
     Some \<lparr>name = ascii ''a.pdf'', type = ascii ''application/pdf''\<rparr>"
    using only_pdf_is_staged [of "\<lparr>name = ascii ''a.pdf'', type = ascii ''application/pdf''\<rparr>" "[]" ?s None]
    by (simp add: run_def)
  ultimately show ?thesis using h by blast
qed

end
